theory Spec2Isabelle
  imports Main
begin

section \<open>The engine hook: \<^verbatim>\<open>useStockfish\<close>\<close>

text \<open>
  The repository holds three copies of the hook \<^verbatim>\<open>useStockfish\<close>:
  \<^verbatim>\<open>src/hooks/useStockfish.ts\<close> (the one \<^verbatim>\<open>ChessGame.tsx\<close> imports) and the two
  unnamed files \<^verbatim>\<open>part_002\<close> and \<^verbatim>\<open>part_004\<close>. The session side of the three
  (\<^verbatim>\<open>requestMove\<close>, \<^verbatim>\<open>worker.onmessage\<close>, \<^verbatim>\<open>worker.onerror\<close>, \<^verbatim>\<open>terminate\<close>)
  is the same code up to log texts, telemetry and the delay of the request timer; the
  worker scripts differ in their commands to Stockfish and in the delay of the backup
  timer.
\<close>

datatype variant = Hooks_useStockfish | Part_002 | Part_004

type_synonym fen = string

text \<open>
  A caller's closure is identified by a number: the caller of \<^verbatim>\<open>requestMove\<close> passes
  \<^verbatim>\<open>onMove\<close> and, optionally, \<^verbatim>\<open>onError\<close>. A timer handle is what \<^verbatim>\<open>setTimeout\<close>
  returns.
\<close>

type_synonym callback = nat
type_synonym handle = nat

text \<open>
  The delay of the timer that \<^verbatim>\<open>requestMove\<close> arms (\<^verbatim>\<open>useStockfish.ts\<close> line 211,
  \<^verbatim>\<open>part_002\<close> line 176, \<^verbatim>\<open>part_004\<close> line 196) and of the backup timer that the
  worker script arms on a \<^verbatim>\<open>position\<close> command (\<^verbatim>\<open>useStockfish.ts\<close> line 113,
  \<^verbatim>\<open>part_002\<close> line 87, \<^verbatim>\<open>part_004\<close> line 106), in milliseconds.
\<close>

fun requestTimeout :: "variant \<Rightarrow> nat" where
  "requestTimeout Hooks_useStockfish = 500"
| "requestTimeout Part_002 = 5000"
| "requestTimeout Part_004 = 200"

fun backupTimeout :: "variant \<Rightarrow> nat" where
  "backupTimeout Hooks_useStockfish = 300"
| "backupTimeout Part_002 = 10000"
| "backupTimeout Part_004 = 300"

subsection \<open>State of the hook\<close>

text \<open>
  The refs and the state of one mounted hook, with the timers of the JavaScript runtime
  that the hook armed and that have neither fired nor been cleared (handle and delay, in
  the order they were armed).
\<close>

record session =
  workerRef :: bool
  isReady :: bool
  analysisDepth :: nat
  pendingCallbackRef :: "callback option"
  errorCallbackRef :: "callback option"
  timeoutRef :: "handle option"
  timers :: "(handle \<times> nat) list"
  nextHandle :: handle

text \<open>What a handler of the hook does to the outside: the closures it calls and the
  messages it posts to the worker.\<close>

datatype action =
    CallOnMove callback string
  | CallOnError callback
  | PostPosition fen

text \<open>The messages of the worker script to the hook, by their \<^verbatim>\<open>type\<close> tag.\<close>

datatype worker_msg =
    MsgReady
  | MsgBestMove string
  | MsgAnalysis nat
  | MsgError string
  | MsgOther

text \<open>The hook after its effect has run: the worker exists, nothing else has happened.\<close>

definition mounted :: session where
  "mounted = \<lparr> workerRef = True, isReady = False, analysisDepth = 0,
     pendingCallbackRef = None, errorCallbackRef = None, timeoutRef = None,
     timers = [], nextHandle = 1 \<rparr>"

subsection \<open>Handlers\<close>

text \<open>\<^verbatim>\<open>clearTimeout(h)\<close>: the timer \<open>h\<close> will not fire any more.\<close>

definition clearTimeout :: "handle \<Rightarrow> session \<Rightarrow> session" where
  "clearTimeout h s = s\<lparr> timers := filter (\<lambda>t. fst t \<noteq> h) (timers s) \<rparr>"

text \<open>
  \<^verbatim>\<open>if (timeoutRef.current) { clearTimeout(timeoutRef.current); timeoutRef.current = null; }\<close>
\<close>

definition clearTimeoutRef :: "session \<Rightarrow> session" where
  "clearTimeoutRef s =
     (case timeoutRef s of
        Some h \<Rightarrow> (clearTimeout h s)\<lparr> timeoutRef := None \<rparr>
      | None \<Rightarrow> s)"

text \<open>
  Two readings are fixed here. The closures that the hook calls do not call back into
  the hook while they run (those of \<^verbatim>\<open>ChessGame\<close> only queue an update of the game
  state), so a call is an action of the handler and the order of the call and of the
  release of its ref does not matter. And \<^verbatim>\<open>requestMove\<close> is called through the closure
  of the current render, so the \<^verbatim>\<open>isReady\<close> it reads is that of the state
  (\<^verbatim>\<open>part_002\<close> reads a ref, which is always current).
\<close>

text \<open>
  \<^verbatim>\<open>requestMove(fen, onMove, onError?)\<close>. Not ready: \<^verbatim>\<open>onError?.()\<close> and return.
  Otherwise both refs are overwritten, a new timer is armed and its handle stored in
  \<^verbatim>\<open>timeoutRef\<close> (the handle that was there is overwritten, its timer is not cleared),
  and the position is posted to the worker.
\<close>

definition requestMove ::
  "variant \<Rightarrow> fen \<Rightarrow> callback \<Rightarrow> callback option \<Rightarrow> session \<Rightarrow> session \<times> action list" where
  "requestMove v f onMove onError s =
     (if \<not> (workerRef s \<and> isReady s)
      then (s, (case onError of Some cb \<Rightarrow> [CallOnError cb] | None \<Rightarrow> []))
      else (s\<lparr> pendingCallbackRef := Some onMove,
               errorCallbackRef := onError,
               timeoutRef := Some (nextHandle s),
               timers := timers s @ [(nextHandle s, requestTimeout v)],
               nextHandle := Suc (nextHandle s) \<rparr>,
            [PostPosition f]))"

text \<open>
  The closure given to \<^verbatim>\<open>setTimeout\<close> in \<^verbatim>\<open>requestMove\<close>. It reads the refs when it
  runs, so every timer of the hook runs the same code, whichever call armed it.
\<close>

definition timeoutCallback :: "session \<Rightarrow> session \<times> action list" where
  "timeoutCallback s =
     (case errorCallbackRef s of
        Some cb \<Rightarrow> (s\<lparr> errorCallbackRef := None, pendingCallbackRef := None \<rparr>, [CallOnError cb])
      | None \<Rightarrow> (s\<lparr> pendingCallbackRef := None \<rparr>, []))"

text \<open>The runtime fires the timer \<open>h\<close>: only an armed timer fires, and only once.\<close>

definition fireTimer :: "handle \<Rightarrow> session \<Rightarrow> session \<times> action list" where
  "fireTimer h s =
     (if h \<in> set (map fst (timers s)) then timeoutCallback (clearTimeout h s) else (s, []))"

text \<open>
  \<^verbatim>\<open>workerRef.current.onmessage\<close>, as in \<^verbatim>\<open>useStockfish.ts\<close>. A message with another
  tag falls through the chain. A handle in \<^verbatim>\<open>timeoutRef\<close> is truthy, as the handles
  of the runtime are.
\<close>

fun onmessage :: "worker_msg \<Rightarrow> session \<Rightarrow> session \<times> action list" where
  "onmessage MsgReady s = (s\<lparr> isReady := True \<rparr>, [])"
| "onmessage (MsgBestMove mv) s =
     (let s1 = clearTimeoutRef s in
      case pendingCallbackRef s1 of
        Some cb \<Rightarrow> (s1\<lparr> pendingCallbackRef := None \<rparr>, [CallOnMove cb mv])
      | None \<Rightarrow> (s1, []))"
| "onmessage (MsgAnalysis d) s = (s\<lparr> analysisDepth := d \<rparr>, [])"
| "onmessage (MsgError m) s =
     (let s1 = clearTimeoutRef s in
      case errorCallbackRef s1 of
        Some cb \<Rightarrow> (s1\<lparr> errorCallbackRef := None \<rparr>, [CallOnError cb])
      | None \<Rightarrow> (s1, []))"
| "onmessage MsgOther s = (s, [])"

text \<open>\<^verbatim>\<open>workerRef.current.onerror\<close>.\<close>

definition onerror :: "session \<Rightarrow> session \<times> action list" where
  "onerror s =
     (case errorCallbackRef s of
        Some cb \<Rightarrow> (s\<lparr> errorCallbackRef := None \<rparr>, [CallOnError cb])
      | None \<Rightarrow> (s, []))"

text \<open>\<^verbatim>\<open>terminate\<close>.\<close>

definition terminate :: "session \<Rightarrow> session" where
  "terminate s = s\<lparr> workerRef := False, isReady := False \<rparr>"

subsection \<open>Runs of the hook\<close>

text \<open>
  Everything that can happen to a mounted hook: a call of \<^verbatim>\<open>requestMove\<close>, a message
  or an error event of the worker, a timer that comes due, a call of \<^verbatim>\<open>terminate\<close>.
  A run takes the events in the order the event loop delivers them and collects the
  actions.
\<close>

datatype event =
    RequestMove fen callback "callback option"
  | Message worker_msg
  | WorkerError
  | TimerFires handle
  | Terminate

fun step :: "variant \<Rightarrow> event \<Rightarrow> session \<Rightarrow> session \<times> action list" where
  "step v (RequestMove f onMove onError) s = requestMove v f onMove onError s"
| "step v (Message m) s = onmessage m s"
| "step v WorkerError s = onerror s"
| "step v (TimerFires h) s = fireTimer h s"
| "step v Terminate s = (terminate s, [])"

fun run :: "variant \<Rightarrow> event list \<Rightarrow> session \<Rightarrow> session \<times> action list" where
  "run v [] s = (s, [])"
| "run v (e # es) s =
     (case step v e s of (s1, a1) \<Rightarrow> (case run v es s1 of (s2, a2) \<Rightarrow> (s2, a1 @ a2)))"

text \<open>The closures called in a list of actions.\<close>

fun isCall :: "action \<Rightarrow> bool" where
  "isCall (CallOnMove cb mv) = True"
| "isCall (CallOnError cb) = True"
| "isCall (PostPosition f) = False"

definition calls :: "action list \<Rightarrow> action list" where
  "calls as = filter isCall as"

text \<open>The hook once the worker has reported \<^verbatim>\<open>ready\<close>.\<close>

definition ready :: session where
  "ready = fst (onmessage MsgReady mounted)"

section \<open>The worker script\<close>

text \<open>
  The script that the hook starts as a Web Worker (the template string \<^verbatim>\<open>workerCode\<close>).
  It holds \<^verbatim>\<open>stockfish\<close> (null when the engine was not loaded) and \<^verbatim>\<open>isEngineReady\<close>.
  It arms timers and never clears one, so a timer it arms always comes due.
\<close>

record worker =
  stockfish :: bool
  isEngineReady :: bool

datatype command = CmdPosition fen | CmdStop | CmdNewGame | CmdOther

text \<open>The two closures the script gives to \<^verbatim>\<open>setTimeout\<close>.\<close>

datatype wtask = Backup | Fallback fen

datatype wout =
    ToStockfish string
  | ToHook worker_msg
  | SetTimeout nat wtask

fun goCommand :: "variant \<Rightarrow> string" where
  "goCommand Hooks_useStockfish = ''go movetime 150''"
| "goCommand Part_002 = ''go depth 20''"
| "goCommand Part_004 = ''go movetime 150''"

fun timeoutMessage :: "variant \<Rightarrow> string" where
  "timeoutMessage Hooks_useStockfish = ''Move timeout''"
| "timeoutMessage Part_002 = ''Search timeout''"
| "timeoutMessage Part_004 = ''Move calculation timeout''"

text \<open>The search of a position: stop, set the position, go, and arm the backup timer.\<close>

definition search :: "variant \<Rightarrow> fen \<Rightarrow> wout list" where
  "search v f =
     [ToStockfish ''stop'', ToStockfish (''position fen '' @ f), ToStockfish (goCommand v),
      SetTimeout (backupTimeout v) Backup]"

text \<open>
  \<^verbatim>\<open>self.onmessage\<close> of the script. In \<^verbatim>\<open>useStockfish.ts\<close> a position is searched by
  Stockfish when it is loaded and ready, and answered by the fallback engine after
  \<^verbatim>\<open>100 + Math.random() * 100\<close> milliseconds otherwise (\<open>r\<close> is the random part,
  below 100). In the two other files every command is answered with an error until
  Stockfish is loaded and ready.
\<close>

fun worker_onmessage :: "variant \<Rightarrow> nat \<Rightarrow> command \<Rightarrow> worker \<Rightarrow> wout list" where
  "worker_onmessage Hooks_useStockfish r (CmdPosition f) w =
     (if stockfish w \<and> isEngineReady w then search Hooks_useStockfish f
      else [SetTimeout (100 + r) (Fallback f)])"
| "worker_onmessage Hooks_useStockfish r CmdStop w =
     (if stockfish w then [ToStockfish ''stop''] else [])"
| "worker_onmessage Hooks_useStockfish r c w = []"
| "worker_onmessage v r c w =
     (if \<not> (stockfish w \<and> isEngineReady w) then [ToHook (MsgError ''Engine not ready'')]
      else (case c of
          CmdPosition f \<Rightarrow> search v f
        | CmdStop \<Rightarrow> [ToStockfish ''stop'']
        | CmdNewGame \<Rightarrow>
            (if v = Part_004 then [ToStockfish ''ucinewgame'', ToStockfish ''isready''] else [])
        | CmdOther \<Rightarrow> []))"

text \<open>The opening moves the fallback engine picks from.\<close>

definition fallbackMoves :: "string list" where
  "fallbackMoves =
     [''e2e4'', ''e7e5'', ''d2d4'', ''d7d5'', ''g1f3'', ''b8c6'',
      ''f1c4'', ''f8c5'', ''b1c3'', ''g8f6'', ''c1f4'', ''c8f5'',
      ''e1g1'', ''e8g8'', ''d1d2'', ''d8d7'', ''a2a3'', ''a7a6'']"

text \<open>
  A timer of the script comes due; \<open>i\<close> is \<^verbatim>\<open>Math.floor(Math.random() * moves.length)\<close>,
  an index below 18. The backup closure does not look at whether the search has been
  answered: it stops the engine and posts an error.
\<close>

fun worker_timer :: "variant \<Rightarrow> nat \<Rightarrow> wtask \<Rightarrow> wout list" where
  "worker_timer v i Backup = [ToStockfish ''stop'', ToHook (MsgError (timeoutMessage v))]"
| "worker_timer v i (Fallback f) = [ToHook (MsgBestMove (fallbackMoves ! (i mod 18)))]"

text \<open>
  \<^verbatim>\<open>stockfish.onmessage\<close> in \<^verbatim>\<open>useStockfish.ts\<close>: a line of the engine, by the test
  of the chain that it passes first. \<open>LineBestMove mv\<close> is a line that starts with \<^verbatim>\<open>bestmove\<close>, \<open>mv\<close> its second
  word (empty when there is none).
\<close>

datatype sf_line = LineReadyOk | LineBestMove string | LineInfoDepth nat | LineOther

fun stockfish_onmessage :: "sf_line \<Rightarrow> worker \<Rightarrow> worker \<times> wout list" where
  "stockfish_onmessage LineReadyOk w = (w\<lparr> isEngineReady := True \<rparr>, [ToHook MsgReady])"
| "stockfish_onmessage (LineBestMove mv) w =
     (if mv \<noteq> [] \<and> mv \<noteq> ''(none)'' then (w, [ToHook (MsgBestMove mv)])
      else (w, [ToHook (MsgError ''No valid move found'')]))"
| "stockfish_onmessage (LineInfoDepth d) w = (w, [ToHook (MsgAnalysis d)])"
| "stockfish_onmessage LineOther w = (w, [])"

section \<open>The game component: \<^verbatim>\<open>ChessGame\<close>\<close>

subsection \<open>The rules engine\<close>

text \<open>
  \<^verbatim>\<open>chess.js\<close> is not part of the repository: the component sees it through the
  operations below, which are parameters here. \<open>tryMove R p m\<close> is
  \<^verbatim>\<open>new Chess(p).move(m)\<close>: it throws, returns null, or returns the move made, and then
  the object holds a new position, on which the four tests and \<^verbatim>\<open>turn()\<close> are asked.
\<close>

record move_request =
  from_sq :: string
  to_sq :: string
  promotion :: "string option"

record applied =
  mv_san :: string
  mv_from :: string
  mv_to :: string

datatype move_result = Threw | Null | Moved applied fen

record rules =
  startFen :: fen
  tryMove :: "fen \<Rightarrow> move_request \<Rightarrow> move_result"
  isCheckmate :: "fen \<Rightarrow> bool"
  isDraw :: "fen \<Rightarrow> bool"
  isCheck :: "fen \<Rightarrow> bool"
  isGameOver :: "fen \<Rightarrow> bool"
  turn :: "fen \<Rightarrow> char"

subsection \<open>The state\<close>

datatype gender = Male | Female | Unset
datatype color = White | Black

text \<open>The interface \<^verbatim>\<open>GameState\<close>; the \<^verbatim>\<open>Chess\<close> object of the field \<^verbatim>\<open>game\<close> is
  represented by the position it holds.\<close>

record GameState =
  playerName :: string
  playerGender :: gender
  playerColor :: color
  gameStarted :: bool
  isFullscreen :: bool
  game :: fen
  gamePosition :: fen
  moveHistory :: "string list"
  gameStatus :: string
  isPlayerTurn :: bool
  botThinking :: bool
  lastMove :: "(string \<times> string) option"
  botMessage :: string
  showBotMessage :: bool
  selectedSquares :: "string list"
  soundEnabled :: bool
  speechEnabled :: bool
  moveCount :: nat

text \<open>What a handler of the component does besides updating the state: sounds, speech,
  console output, and the calls it schedules with \<^verbatim>\<open>setTimeout\<close> (delay first).\<close>

datatype effect =
    PlayMoveSound nat
  | StopSpeaking
  | SpeakTrashTalk string
  | ConsoleError string
  | GreetIn nat
  | ShowBotPersonalityIn nat
  | HideBotMessageIn nat
  | RequestBotMoveIn nat fen

text \<open>The argument of \<^verbatim>\<open>useState\<close>.\<close>

definition initialState :: "rules \<Rightarrow> GameState" where
  "initialState R = \<lparr> playerName = [], playerGender = Unset, playerColor = White,
     gameStarted = False, isFullscreen = False, game = startFen R,
     gamePosition = startFen R, moveHistory = [], gameStatus = ''Game in progress'',
     isPlayerTurn = True, botThinking = False, lastMove = None, botMessage = [],
     showBotMessage = False, selectedSquares = [], soundEnabled = True,
     speechEnabled = True, moveCount = 0 \<rparr>"

subsection \<open>Handlers\<close>

text \<open>The setters of the set-up form and the three toggles.\<close>

definition setPlayerName :: "string \<Rightarrow> GameState \<Rightarrow> GameState" where
  "setPlayerName n prev = prev\<lparr> playerName := n \<rparr>"

definition setPlayerGender :: "gender \<Rightarrow> GameState \<Rightarrow> GameState" where
  "setPlayerGender g prev = prev\<lparr> playerGender := g \<rparr>"

definition setPlayerColor :: "color \<Rightarrow> GameState \<Rightarrow> GameState" where
  "setPlayerColor c prev = prev\<lparr> playerColor := c \<rparr>"

definition toggleFullscreen :: "GameState \<Rightarrow> GameState" where
  "toggleFullscreen prev = prev\<lparr> isFullscreen := \<not> isFullscreen prev \<rparr>"

definition toggleSound :: "GameState \<Rightarrow> GameState" where
  "toggleSound prev = prev\<lparr> soundEnabled := \<not> soundEnabled prev \<rparr>"

definition toggleSpeech :: "GameState \<Rightarrow> GameState \<times> effect list" where
  "toggleSpeech prev =
     (let newSpeechEnabled = \<not> speechEnabled prev in
      (prev\<lparr> speechEnabled := newSpeechEnabled \<rparr>,
       if \<not> newSpeechEnabled then [StopSpeaking] else []))"

text \<open>
  \<^verbatim>\<open>playerName.trim()\<close> is not empty. A \<open>string\<close> is a list of bytes, the name in
  UTF-8; \<^verbatim>\<open>trim\<close> strips the white space and the line terminators of ECMAScript, which
  in UTF-8 are the six ASCII characters TAB, LF, VT, FF, CR and SPACE, the two bytes of
  U+00A0, and the three bytes of U+1680, U+2000 to U+200A, U+2028, U+2029, U+202F,
  U+205F, U+3000 and U+FEFF. The trimmed name is not empty when, reading whole
  white-space characters from the left, a character is met that is none.
\<close>

definition asciiWhiteSpace :: "char list" where
  "asciiWhiteSpace = [CHR 0x09, CHR 0x0A, CHR 0x0B, CHR 0x0C, CHR 0x0D, CHR 0x20]"

definition wideWhiteSpace :: "(char \<times> char \<times> char) list" where
  "wideWhiteSpace =
     [(CHR 0xE1, CHR 0x9A, CHR 0x80),
      (CHR 0xE2, CHR 0x80, CHR 0x80), (CHR 0xE2, CHR 0x80, CHR 0x81),
      (CHR 0xE2, CHR 0x80, CHR 0x82), (CHR 0xE2, CHR 0x80, CHR 0x83),
      (CHR 0xE2, CHR 0x80, CHR 0x84), (CHR 0xE2, CHR 0x80, CHR 0x85),
      (CHR 0xE2, CHR 0x80, CHR 0x86), (CHR 0xE2, CHR 0x80, CHR 0x87),
      (CHR 0xE2, CHR 0x80, CHR 0x88), (CHR 0xE2, CHR 0x80, CHR 0x89),
      (CHR 0xE2, CHR 0x80, CHR 0x8A), (CHR 0xE2, CHR 0x80, CHR 0xA8),
      (CHR 0xE2, CHR 0x80, CHR 0xA9), (CHR 0xE2, CHR 0x80, CHR 0xAF),
      (CHR 0xE2, CHR 0x81, CHR 0x9F), (CHR 0xE3, CHR 0x80, CHR 0x80),
      (CHR 0xEF, CHR 0xBB, CHR 0xBF)]"

fun trim_nonempty :: "string \<Rightarrow> bool" where
  "trim_nonempty [] = False"
| "trim_nonempty [c] = (c \<notin> set asciiWhiteSpace)"
| "trim_nonempty [c, d] =
     (if c \<in> set asciiWhiteSpace then trim_nonempty [d]
      else (c, d) \<noteq> (CHR 0xC2, CHR 0xA0))"
| "trim_nonempty (c # d # e # es) =
     (if c \<in> set asciiWhiteSpace then trim_nonempty (d # e # es)
      else if (c, d) = (CHR 0xC2, CHR 0xA0) then trim_nonempty (e # es)
      else if (c, d, e) \<in> set wideWhiteSpace then trim_nonempty es
      else True)"

definition startGame :: "rules \<Rightarrow> GameState \<Rightarrow> GameState \<times> effect list" where
  "startGame R gs =
     (if trim_nonempty (playerName gs) \<and> playerGender gs \<noteq> Unset
      then (gs\<lparr> gameStarted := True, game := startFen R, gamePosition := startFen R,
                moveHistory := [], gameStatus := ''Game in progress'',
                isPlayerTurn := (playerColor gs = White), botThinking := False,
                lastMove := None, botMessage := [], showBotMessage := False,
                selectedSquares := [], moveCount := 0 \<rparr>,
            GreetIn 1000 #
            (if playerColor gs = Black then [RequestBotMoveIn 2000 (startFen R)] else []))
      else (gs, []))"

definition resetGame :: "rules \<Rightarrow> GameState \<Rightarrow> GameState \<times> effect list" where
  "resetGame R prev =
     (prev\<lparr> gameStarted := False, playerName := [], playerGender := Unset,
             playerColor := White, game := startFen R, gamePosition := startFen R,
             moveHistory := [], gameStatus := ''Game in progress'', isPlayerTurn := True,
             botThinking := False, lastMove := None, botMessage := [],
             showBotMessage := False, selectedSquares := [], moveCount := 0 \<rparr>,
      [StopSpeaking])"

text \<open>\<^verbatim>\<open>showBotPersonality\<close>, with the message it chose, and the update it schedules.\<close>

definition showBotPersonality :: "string \<Rightarrow> GameState \<Rightarrow> GameState \<times> effect list" where
  "showBotPersonality message gs =
     (gs\<lparr> botMessage := message, showBotMessage := True \<rparr>,
      (if speechEnabled gs then [SpeakTrashTalk message] else []) @ [HideBotMessageIn 4000])"

definition hideBotMessage :: "GameState \<Rightarrow> GameState" where
  "hideBotMessage prev = prev\<lparr> showBotMessage := False \<rparr>"

text \<open>
  The status line after a move, computed on the position the move led to. The source
  has this chain twice, in \<^verbatim>\<open>makeBotMove\<close> and in \<^verbatim>\<open>onDrop\<close>, word for word.
\<close>

definition statusAfter :: "rules \<Rightarrow> fen \<Rightarrow> string" where
  "statusAfter R p =
     (if isCheckmate R p
      then ''Checkmate! '' @ (if turn R p = CHR ''w'' then ''Black'' else ''White'') @ '' wins!''
      else if isDraw R p then ''Draw!''
      else if isCheck R p then ''Check!''
      else ''Game in progress'')"

text \<open>The move that \<^verbatim>\<open>makeBotMove\<close> builds from the engine's string:
  \<^verbatim>\<open>slice(0, 2)\<close>, \<^verbatim>\<open>slice(2, 4)\<close> and \<^verbatim>\<open>slice(4) || undefined\<close>.\<close>

definition botRequest :: "string \<Rightarrow> move_request" where
  "botRequest moveString =
     \<lparr> from_sq = take 2 moveString, to_sq = take 2 (drop 2 moveString),
       promotion = (if drop 4 moveString = [] then None else Some (drop 4 moveString)) \<rparr>"

text \<open>
  \<^verbatim>\<open>makeBotMove\<close>, the updater it passes to \<^verbatim>\<open>setGameState\<close>. \<open>coin\<close> is
  \<^verbatim>\<open>Math.random() > 0.5\<close>.
\<close>

definition makeBotMove ::
  "rules \<Rightarrow> bool \<Rightarrow> string \<Rightarrow> GameState \<Rightarrow> GameState \<times> effect list" where
  "makeBotMove R coin moveString prev =
     (case tryMove R (gamePosition prev) (botRequest moveString) of
        Moved m p \<Rightarrow>
          (prev\<lparr> game := p, gamePosition := p,
                  moveHistory := moveHistory prev @ [mv_san m],
                  gameStatus := statusAfter R p, isPlayerTurn := True, botThinking := False,
                  lastMove := Some (mv_from m, mv_to m), selectedSquares := [],
                  moveCount := moveCount prev + 1 \<rparr>,
           (if soundEnabled prev then [PlayMoveSound 100] else []) @
           (if (moveCount prev + 1) mod (if coin then 2 else 3) = 0
            then [ShowBotPersonalityIn 800] else []))
      | Null \<Rightarrow> (prev\<lparr> botThinking := False \<rparr>, [])
      | Threw \<Rightarrow> (prev\<lparr> botThinking := False \<rparr>, [ConsoleError ''Invalid bot move:'']))"

text \<open>The failure closure that \<^verbatim>\<open>requestBotMove\<close> passes to \<^verbatim>\<open>requestMove\<close>.\<close>

definition onBotMoveFailed :: "GameState \<Rightarrow> GameState \<times> effect list" where
  "onBotMoveFailed prev = (prev\<lparr> botThinking := False \<rparr>, [ConsoleError ''Bot move failed''])"

text \<open>The move that \<^verbatim>\<open>onDrop\<close> builds; the promotion is a queen when the lower-cased
  name of the piece has a \<^verbatim>\<open>q\<close>.\<close>

definition dropRequest :: "string \<Rightarrow> string \<Rightarrow> string \<Rightarrow> move_request" where
  "dropRequest sourceSquare targetSquare piece =
     \<lparr> from_sq = sourceSquare, to_sq = targetSquare,
       promotion = (if CHR ''q'' \<in> set piece \<or> CHR ''Q'' \<in> set piece then Some ''q'' else None) \<rparr>"

text \<open>
  \<^verbatim>\<open>onDrop\<close>: the value it returns, the state, and the effects. The handler reads the
  state of the render it belongs to and updates the current state; the two are taken to
  be the same state \<open>gs\<close>, as they are when the board has been rendered since the last
  update. The source's guard is \<^verbatim>\<open>!isPlayerTurn || botThinking\<close>.
\<close>

definition onDrop ::
  "rules \<Rightarrow> string \<Rightarrow> string \<Rightarrow> string \<Rightarrow> GameState \<Rightarrow> bool \<times> GameState \<times> effect list" where
  "onDrop R sourceSquare targetSquare piece gs =
     (if \<not> (isPlayerTurn gs \<and> \<not> botThinking gs) then (False, gs, [])
      else (case tryMove R (gamePosition gs) (dropRequest sourceSquare targetSquare piece) of
          Moved m p \<Rightarrow>
            (True,
             gs\<lparr> game := p, gamePosition := p, moveHistory := moveHistory gs @ [mv_san m],
                 gameStatus := statusAfter R p, isPlayerTurn := False,
                 lastMove := Some (mv_from m, mv_to m), selectedSquares := [],
                 moveCount := moveCount gs + 1 \<rparr>,
             (if soundEnabled gs then [PlayMoveSound 0] else []) @
             (if \<not> isGameOver R p then [RequestBotMoveIn 200 p] else []))
        | Null \<Rightarrow> (False, gs, [])
        | Threw \<Rightarrow> (False, gs, [])))"

text \<open>Whether the rules engine made the move.\<close>

fun isMoved :: "move_result \<Rightarrow> bool" where
  "isMoved (Moved m p) = True"
| "isMoved Null = False"
| "isMoved Threw = False"

subsection \<open>The component wired to its hook\<close>

text \<open>
  \<^verbatim>\<open>requestBotMove\<close> sets \<^verbatim>\<open>botThinking\<close> and calls \<^verbatim>\<open>requestMove\<close> with two closures:
  the first passes the engine's move to \<^verbatim>\<open>makeBotMove\<close>, the second is
  \<open>onBotMoveFailed\<close>. So every call of a closure by the hook is an update of the game
  state, and the component never calls \<^verbatim>\<open>terminate\<close> (it does not even take it from
  the hook). \<open>coin\<close> is the random choice of \<^verbatim>\<open>makeBotMove\<close>.
\<close>

record system =
  gameState :: GameState
  hook :: session

fun deliver :: "rules \<Rightarrow> bool \<Rightarrow> action \<Rightarrow> GameState \<Rightarrow> GameState" where
  "deliver R coin (CallOnMove cb mv) g = fst (makeBotMove R coin mv g)"
| "deliver R coin (CallOnError cb) g = fst (onBotMoveFailed g)"
| "deliver R coin (PostPosition f) g = g"

text \<open>An event of the hook, and what the closures it calls do to the game state.\<close>

definition hookEvent :: "variant \<Rightarrow> rules \<Rightarrow> bool \<Rightarrow> event \<Rightarrow> system \<Rightarrow> system" where
  "hookEvent v R coin e sys =
     (case step v e (hook sys) of
        (h, acts) \<Rightarrow>
          \<lparr> gameState = foldl (\<lambda>g a. deliver R coin a g) (gameState sys) acts, hook = h \<rparr>)"

definition requestBotMove ::
  "variant \<Rightarrow> rules \<Rightarrow> bool \<Rightarrow> fen \<Rightarrow> callback \<Rightarrow> system \<Rightarrow> system" where
  "requestBotMove v R coin f cb sys =
     hookEvent v R coin (RequestMove f cb (Some cb))
       (sys\<lparr> gameState := (gameState sys)\<lparr> botThinking := True \<rparr> \<rparr>)"

text \<open>
  The greeting that \<^verbatim>\<open>startGame\<close> schedules, built from the state that \<^verbatim>\<open>startGame\<close>
  read.
\<close>

definition greeting :: "GameState \<Rightarrow> string" where
  "greeting gs =
     (if playerGender gs = Female
      then ''Hello '' @ playerName gs @ ''! Ready for a friendly game?''
      else ''Alright '' @ playerName gs @ '', prepare to get crushed!'')"

text \<open>
  A call that a handler scheduled comes due. A request of a move is \<^verbatim>\<open>requestBotMove\<close>;
  the greeting and the remark of the engine are \<^verbatim>\<open>showBotPersonality\<close> with the text
  \<open>msg\<close> (the greeting, or the entry of the list of remarks that was drawn), followed by
  the hiding of the message that \<^verbatim>\<open>showBotPersonality\<close> schedules in its turn; sounds,
  speech and console output leave the state alone.
\<close>

fun scheduled ::
  "variant \<Rightarrow> rules \<Rightarrow> bool \<Rightarrow> callback \<Rightarrow> string \<Rightarrow> effect \<Rightarrow> system \<Rightarrow> system" where
  "scheduled v R coin cb msg (RequestBotMoveIn d f) sys = requestBotMove v R coin f cb sys"
| "scheduled v R coin cb msg (GreetIn d) sys =
     sys\<lparr> gameState := hideBotMessage (fst (showBotPersonality msg (gameState sys))) \<rparr>"
| "scheduled v R coin cb msg (ShowBotPersonalityIn d) sys =
     sys\<lparr> gameState := hideBotMessage (fst (showBotPersonality msg (gameState sys))) \<rparr>"
| "scheduled v R coin cb msg e sys = sys"

text \<open>The update of a handler, and then the calls it scheduled, in their order.\<close>

definition settle ::
  "variant \<Rightarrow> rules \<Rightarrow> bool \<Rightarrow> callback \<Rightarrow> string \<Rightarrow> GameState \<times> effect list \<Rightarrow> system
     \<Rightarrow> system" where
  "settle v R coin cb msg upd sys =
     foldl (\<lambda>s e. scheduled v R coin cb msg e s) (sys\<lparr> gameState := fst upd \<rparr>) (snd upd)"

text \<open>The player starts the game; the player drops a piece; the worker sends a move, and
  the closure that the hook calls makes it; each with what it schedules.\<close>

definition starts :: "variant \<Rightarrow> rules \<Rightarrow> bool \<Rightarrow> callback \<Rightarrow> system \<Rightarrow> system" where
  "starts v R coin cb sys =
     settle v R coin cb (greeting (gameState sys)) (startGame R (gameState sys)) sys"

definition drops ::
  "variant \<Rightarrow> rules \<Rightarrow> bool \<Rightarrow> callback \<Rightarrow> string \<Rightarrow> string \<Rightarrow> string \<Rightarrow> string \<Rightarrow> system
     \<Rightarrow> system" where
  "drops v R coin cb msg a b pc sys =
     settle v R coin cb msg (snd (onDrop R a b pc (gameState sys))) sys"

fun called ::
  "variant \<Rightarrow> rules \<Rightarrow> bool \<Rightarrow> callback \<Rightarrow> string \<Rightarrow> action \<Rightarrow> system \<Rightarrow> system" where
  "called v R coin cb msg (CallOnMove c mv) sys =
     settle v R coin cb msg (makeBotMove R coin mv (gameState sys)) sys"
| "called v R coin cb msg (CallOnError c) sys =
     sys\<lparr> gameState := fst (onBotMoveFailed (gameState sys)) \<rparr>"
| "called v R coin cb msg (PostPosition f) sys = sys"

definition engineSends ::
  "variant \<Rightarrow> rules \<Rightarrow> bool \<Rightarrow> callback \<Rightarrow> string \<Rightarrow> worker_msg \<Rightarrow> system \<Rightarrow> system" where
  "engineSends v R coin cb msg m sys =
     (case onmessage m (hook sys) of
        (h, acts) \<Rightarrow> foldl (\<lambda>s a. called v R coin cb msg a s) (sys\<lparr> hook := h \<rparr>) acts)"

section \<open>The specification's notions, read on the code\<close>

text \<open>
  The specification's game phase is not a field of the code. It is read off the state
  as the specification describes it: set-up until the game is started, ended when the
  rules engine says the game is over, in progress otherwise.
\<close>

datatype GamePhase = Setup | InProgress | Ended

definition phase :: "rules \<Rightarrow> GameState \<Rightarrow> GamePhase" where
  "phase R gs =
     (if \<not> gameStarted gs then Setup
      else if isGameOver R (gamePosition gs) then Ended
      else InProgress)"



text \<open>
  The events by which a request fails: an \<^verbatim>\<open>error\<close> message of the worker, an error
  event of the worker, a timer of the hook that comes due.
\<close>

fun isFailure :: "event \<Rightarrow> bool" where
  "isFailure (Message (MsgError m)) = True"
| "isFailure WorkerError = True"
| "isFailure (TimerFires h) = True"
| "isFailure e = False"

section \<open>Concrete inputs\<close>

text \<open>
  A rules engine for the examples: the two plies 1. e4 e5 from the starting position,
  with the positions \<^verbatim>\<open>chess.js\<close> reports; any other move throws.
\<close>

definition fenStart :: fen where
  "fenStart = ''rnbqkbnr/pppppppp/8/8/8/8/PPPPPPPP/RNBQKBNR w KQkq - 0 1''"

definition fenE4 :: fen where
  "fenE4 = ''rnbqkbnr/pppppppp/8/8/4P3/8/PPPP1PPP/RNBQKBNR b KQkq - 0 1''"

definition fenE4E5 :: fen where
  "fenE4E5 = ''rnbqkbnr/pppp1ppp/8/4p3/4P3/8/PPPP1PPP/RNBQKBNR w KQkq - 0 2''"

definition openingMove :: "fen \<Rightarrow> move_request \<Rightarrow> move_result" where
  "openingMove p m =
     (if p = fenStart \<and> from_sq m = ''e2'' \<and> to_sq m = ''e4''
      then Moved \<lparr> mv_san = ''e4'', mv_from = ''e2'', mv_to = ''e4'' \<rparr> fenE4
      else if p = fenE4 \<and> from_sq m = ''e7'' \<and> to_sq m = ''e5''
      then Moved \<lparr> mv_san = ''e5'', mv_from = ''e7'', mv_to = ''e5'' \<rparr> fenE4E5
      else Threw)"

definition openingRules :: rules where
  "openingRules = \<lparr> startFen = fenStart, tryMove = openingMove,
     isCheckmate = (\<lambda>p. False), isDraw = (\<lambda>p. False), isCheck = (\<lambda>p. False),
     isGameOver = (\<lambda>p. False), turn = (\<lambda>p. if p = fenE4 then CHR ''b'' else CHR ''w'') \<rparr>"

text \<open>A game on that engine: a player who entered a name, kept white and started the
  game; who then played 1. e4; and the component that has then asked the ready hook for
  the reply.\<close>

definition startedAsWhite :: GameState where
  "startedAsWhite =
     fst (startGame openingRules
       (setPlayerGender Female (setPlayerName ''Ann'' (initialState openingRules))))"

definition playedE4 :: GameState where
  "playedE4 = fst (snd (onDrop openingRules ''e2'' ''e4'' ''wP'' startedAsWhite))"

definition awaitingReply :: system where
  "awaitingReply =
     requestBotMove Hooks_useStockfish openingRules True fenE4 1
       \<lparr> gameState = playedE4, hook = ready \<rparr>"

text \<open>
  A second rules engine for the examples: the games in which the two king's knights go
  out and back (Nf3 Nf6 Ng1 Ng8) from the starting position, as \<^verbatim>\<open>chess.js\<close> plays
  them. Only the two counters at the end of the position change from one round to the
  next; \<^verbatim>\<open>chess.js\<close> makes a legal move whatever the counters say, and reports a draw
  by the fifty-move rule once the half-move clock has reached 100. Any other move, and
  any move from another position, throws.
\<close>

definition boardOf :: "bool \<Rightarrow> bool \<Rightarrow> string" where
  "boardOf wo bo =
     (if bo then ''rnbqkb1r'' else ''rnbqkbnr'') @ ''/pppppppp/'' @
     (if bo then ''5n2'' else ''8'') @ ''/8/8/'' @ (if wo then ''5N2'' else ''8'') @
     ''/PPPPPPPP/'' @ (if wo then ''RNBQKB1R'' else ''RNBQKBNR'')"

definition digitChars :: string where
  "digitChars = ''0123456789''"

text \<open>The decimal text of a number below 1000, and the number of a decimal text.\<close>

definition showNat :: "nat \<Rightarrow> string" where
  "showNat n =
     (if n < 10 then [digitChars ! n]
      else if n < 100 then [digitChars ! (n div 10), digitChars ! (n mod 10)]
      else [digitChars ! (n div 100 mod 10), digitChars ! (n div 10 mod 10),
            digitChars ! (n mod 10)])"

definition readNat :: "string \<Rightarrow> nat" where
  "readNat s = foldl (\<lambda>n c. 10 * n + length (takeWhile (\<lambda>d. d \<noteq> c) digitChars)) 0 s"

text \<open>The fields of a position, which single spaces separate.\<close>

fun fields :: "string \<Rightarrow> string \<Rightarrow> string list" where
  "fields acc [] = [rev acc]"
| "fields acc (c # cs) =
     (if c = CHR '' '' then rev acc # fields [] cs else fields (c # acc) cs)"

text \<open>The position with the white knight out or not, the black knight out or not, the
  side to move, the half-move clock and the number of the move.\<close>

definition shuffleFen :: "bool \<Rightarrow> bool \<Rightarrow> bool \<Rightarrow> nat \<Rightarrow> nat \<Rightarrow> fen" where
  "shuffleFen wo bo white h f =
     boardOf wo bo @ (if white then '' w KQkq - '' else '' b KQkq - '') @ showNat h @ '' '' @
     showNat f"

definition knightMove :: "fen \<Rightarrow> move_request \<Rightarrow> move_result" where
  "knightMove p m =
     (case fields [] p of
        [b, side, castling, ep, h, f] \<Rightarrow>
          (if castling = ''KQkq'' \<and> ep = ''-'' \<and> promotion m = None
              \<and> b \<in> set [boardOf False False, boardOf True False, boardOf False True,
                          boardOf True True]
           then
             (let wo = (b \<in> set [boardOf True False, boardOf True True]);
                  bo = (b \<in> set [boardOf False True, boardOf True True])
              in if side = ''w'' \<and> from_sq m = (if wo then ''f3'' else ''g1'')
                     \<and> to_sq m = (if wo then ''g1'' else ''f3'')
                 then Moved \<lparr> mv_san = (if wo then ''Ng1'' else ''Nf3''), mv_from = from_sq m,
                              mv_to = to_sq m \<rparr>
                        (shuffleFen (\<not> wo) bo False (readNat h + 1) (readNat f))
                 else if side = ''b'' \<and> from_sq m = (if bo then ''f6'' else ''g8'')
                     \<and> to_sq m = (if bo then ''g8'' else ''f6'')
                 then Moved \<lparr> mv_san = (if bo then ''Ng8'' else ''Nf6''), mv_from = from_sq m,
                              mv_to = to_sq m \<rparr>
                        (shuffleFen wo (\<not> bo) True (readNat h + 1) (readNat f + 1))
                 else Threw)
           else Threw)
      | _ \<Rightarrow> Threw)"

definition halfMoves :: "fen \<Rightarrow> nat" where
  "halfMoves p = (case fields [] p of [b, side, castling, ep, h, f] \<Rightarrow> readNat h | _ \<Rightarrow> 0)"

definition sideToMove :: "fen \<Rightarrow> char" where
  "sideToMove p =
     (case fields [] p of
        [b, side, castling, ep, h, f] \<Rightarrow> (if side = ''b'' then CHR ''b'' else CHR ''w'')
      | _ \<Rightarrow> CHR ''w'')"

definition shuffleRules :: rules where
  "shuffleRules = \<lparr> startFen = fenStart, tryMove = knightMove,
     isCheckmate = (\<lambda>p. False), isDraw = (\<lambda>p. 100 \<le> halfMoves p), isCheck = (\<lambda>p. False),
     isGameOver = (\<lambda>p. 100 \<le> halfMoves p), turn = sideToMove \<rparr>"

text \<open>
  A game on that engine, with the hook of \<^verbatim>\<open>useStockfish.ts\<close> ready. The player enters
  a name, keeps white and starts. A round is: the player plays the knight out, the
  engine answers with its own, and the worker's backup timer reports its timeout; the
  player plays the knight back, the engine does the same, and the backup timer reports
  again. The random choice of \<^verbatim>\<open>makeBotMove\<close> falls on 2 every time, so the engine
  makes a remark after each of its moves, which is shown and hidden before the player
  moves again.
\<close>

definition remark :: string where
  "remark = ''That was an interesting choice, but I have a better idea.''"

definition shuffleStart :: system where
  "shuffleStart =
     starts Hooks_useStockfish shuffleRules True 1
       \<lparr> gameState = setPlayerGender Female (setPlayerName ''Ann'' (initialState shuffleRules)),
         hook = ready \<rparr>"

definition halfRound :: "string \<Rightarrow> string \<Rightarrow> string \<Rightarrow> system \<Rightarrow> system" where
  "halfRound a b reply sys =
     engineSends Hooks_useStockfish shuffleRules True 1 remark (MsgError ''Move timeout'')
       (engineSends Hooks_useStockfish shuffleRules True 1 remark (MsgBestMove reply)
         (drops Hooks_useStockfish shuffleRules True 1 remark a b ''wN'' sys))"

definition shuffleRound :: "system \<Rightarrow> system" where
  "shuffleRound sys = halfRound ''f3'' ''g1'' ''f6g8'' (halfRound ''g1'' ''f3'' ''g8f6'' sys)"

text \<open>Twenty-five rounds: a hundred half-moves without a capture or a pawn move.\<close>

definition fiftyMoves :: system where
  "fiftyMoves = (shuffleRound ^^ 25) shuffleStart"

text \<open>The state after \<open>k\<close> rounds, written out.\<close>

definition shuffled :: "nat \<Rightarrow> system" where
  "shuffled k =
     \<lparr> gameState =
         \<lparr> playerName = ''Ann'', playerGender = Female, playerColor = White,
           gameStarted = True, isFullscreen = False,
           game = shuffleFen False False True (4 * k) (2 * k + 1),
           gamePosition = shuffleFen False False True (4 * k) (2 * k + 1),
           moveHistory = concat (replicate k [''Nf3'', ''Nf6'', ''Ng1'', ''Ng8'']),
           gameStatus = (if 25 \<le> k then ''Draw!'' else ''Game in progress''),
           isPlayerTurn = True, botThinking = False,
           lastMove = (if k = 0 then None else Some (''f6'', ''g8'')),
           botMessage = (if k = 0 then ''Hello Ann! Ready for a friendly game?'' else remark),
           showBotMessage = False, selectedSquares = [], soundEnabled = True,
           speechEnabled = True, moveCount = 4 * k \<rparr>,
       hook =
         \<lparr> workerRef = True, isReady = True, analysisDepth = 0,
           pendingCallbackRef = None, errorCallbackRef = None,
           timeoutRef = None, timers = [], nextHandle = 2 * k + 1 \<rparr> \<rparr>"

text \<open>The state in the middle of round \<open>k\<close>, both knights out, written out.\<close>

definition midRound :: "nat \<Rightarrow> system" where
  "midRound k =
     \<lparr> gameState =
         \<lparr> playerName = ''Ann'', playerGender = Female, playerColor = White,
           gameStarted = True, isFullscreen = False,
           game = shuffleFen True True True (4 * k + 2) (2 * k + 2),
           gamePosition = shuffleFen True True True (4 * k + 2) (2 * k + 2),
           moveHistory = concat (replicate k [''Nf3'', ''Nf6'', ''Ng1'', ''Ng8'']) @ [''Nf3'', ''Nf6''],
           gameStatus = ''Game in progress'',
           isPlayerTurn = True, botThinking = False,
           lastMove = Some (''g8'', ''f6''),
           botMessage = remark,
           showBotMessage = False, selectedSquares = [], soundEnabled = True,
           speechEnabled = True, moveCount = 4 * k + 2 \<rparr>,
       hook =
         \<lparr> workerRef = True, isReady = True, analysisDepth = 0,
           pendingCallbackRef = None, errorCallbackRef = None,
           timeoutRef = None, timers = [], nextHandle = 2 * k + 2 \<rparr> \<rparr>"





text \<open>The worker script with Stockfish loaded and ready, and the one that fell back to
  its own engine because Stockfish did not load.\<close>

definition stockfishWorker :: worker where
  "stockfishWorker = \<lparr> stockfish = True, isEngineReady = True \<rparr>"


section \<open>Properties of the hook\<close>

lemmas hook_defs = ready_def mounted_def requestMove_def clearTimeoutRef_def clearTimeout_def
  fireTimer_def timeoutCallback_def onerror_def terminate_def calls_def


text \<open>
  What the worker script of \<^verbatim>\<open>useStockfish.ts\<close> sends for one position when Stockfish
  is loaded: the engine's \<^verbatim>\<open>bestmove\<close> line is forwarded, and the backup timer, armed
  with every search and never cleared, posts an error 300 ms after the command whether
  or not the move has been sent.
\<close>

lemma worker_answers_and_reports_timeout:
  "worker_onmessage Hooks_useStockfish r (CmdPosition f) stockfishWorker
     = [ToStockfish ''stop'', ToStockfish (''position fen '' @ f),
        ToStockfish ''go movetime 150'', SetTimeout 300 Backup]
   \<and> stockfish_onmessage (LineBestMove ''e7e5'') stockfishWorker
     = (stockfishWorker, [ToHook (MsgBestMove ''e7e5'')])
   \<and> worker_timer Hooks_useStockfish i Backup
     = [ToStockfish ''stop'', ToHook (MsgError ''Move timeout'')]"
  by (simp add: stockfishWorker_def search_def)

text \<open>
  Claim C1 (exactly one of \<^verbatim>\<open>onBestMove\<close> / \<^verbatim>\<open>onFailure\<close> is called for every
  \<^verbatim>\<open>requestMove\<close> on a ready session) does not hold of the code. One call on the ready
  hook; the worker sends the move and then, from its backup timer, the error
  \<^verbatim>\<open>Move timeout\<close> (the two messages of \<open>worker_answers_and_reports_timeout\<close>). The
  \<^verbatim>\<open>bestmove\<close> branch calls \<^verbatim>\<open>onMove\<close> and clears \<^verbatim>\<open>pendingCallbackRef\<close> only, so the
  \<^verbatim>\<open>error\<close> branch still finds \<^verbatim>\<open>errorCallbackRef\<close> set: both closures of the call are
  called.
\<close>

theorem bestmove_then_error_calls_both:
  "calls (snd (run Hooks_useStockfish
      [RequestMove fenE4 1 (Some 1), Message (MsgBestMove ''e7e5''),
       Message (MsgError ''Move timeout'')] ready))
   = [CallOnMove 1 ''e7e5'', CallOnError 1]"
  by (simp add: hook_defs)

text \<open>
  Claim C2 (at most one request is outstanding, and a \<^verbatim>\<open>requestMove\<close> issued while one
  is pending first cancels it: timer cleared, slot released, stop sent) does not hold of
  the code. Two calls in a row on the ready hook: the refs hold the second call's
  closures and only a position is posted, but the timer of the first call stays armed
  beside the timer of the second. When it comes due it calls the \<^verbatim>\<open>onError\<close> of the second
  call and empties \<^verbatim>\<open>pendingCallbackRef\<close>, so the move that then arrives for the second
  call is dropped.
\<close>

theorem second_request_leaves_first_timer_armed:
  "timers (fst (run Hooks_useStockfish
      [RequestMove fenStart 1 (Some 1), RequestMove fenE4 2 (Some 2)] ready))
     = [(1, 500), (2, 500)]
   \<and> snd (run Hooks_useStockfish
      [RequestMove fenStart 1 (Some 1), RequestMove fenE4 2 (Some 2), TimerFires 1,
       Message (MsgBestMove ''e7e5'')] ready)
     = [PostPosition fenStart, PostPosition fenE4, CallOnError 2]"
  by (simp add: hook_defs)

text \<open>
  Claim C10 (with \<^verbatim>\<open>onError\<close> omitted, on every failure path no closure is called for the
  call and its \<^verbatim>\<open>onMove\<close> never fires) does not hold of the code on the path of an error
  reported by the engine. The \<^verbatim>\<open>error\<close> branch clears the timer and, there being no
  \<^verbatim>\<open>onError\<close>, calls nothing; it leaves \<^verbatim>\<open>pendingCallbackRef\<close> set, so a \<^verbatim>\<open>bestmove\<close>
  that follows calls the \<^verbatim>\<open>onMove\<close> of the call that has failed.
\<close>

theorem error_without_onError_keeps_onMove_armed:
  "calls (snd (run Hooks_useStockfish
      [RequestMove fenE4 1 None, Message (MsgError ''Move timeout''),
       Message (MsgBestMove ''e7e5'')] ready))
   = [CallOnMove 1 ''e7e5'']"
  by (simp add: hook_defs)

subsection \<open>The deadline\<close>








section \<open>Properties of the game component\<close>

lemmas game_defs = initialState_def startGame_def setPlayerName_def setPlayerGender_def
  setPlayerColor_def onDrop_def dropRequest_def makeBotMove_def botRequest_def
  onBotMoveFailed_def statusAfter_def asciiWhiteSpace_def wideWhiteSpace_def
  openingRules_def openingMove_def fenStart_def fenE4_def fenE4E5_def startedAsWhite_def

lemma playedE4_eq:
  "playedE4 = \<lparr> playerName = ''Ann'', playerGender = Female, playerColor = White,
     gameStarted = True, isFullscreen = False, game = fenE4, gamePosition = fenE4,
     moveHistory = [''e4''], gameStatus = ''Game in progress'', isPlayerTurn = False,
     botThinking = False, lastMove = Some (''e2'', ''e4''), botMessage = [],
     showBotMessage = False, selectedSquares = [], soundEnabled = True,
     speechEnabled = True, moveCount = 1 \<rparr>"
  by (simp add: playedE4_def game_defs)

lemma awaitingReply_eq:
  "awaitingReply = \<lparr> gameState = playedE4\<lparr> botThinking := True \<rparr>,
     hook = \<lparr> workerRef = True, isReady = True, analysisDepth = 0,
       pendingCallbackRef = Some 1, errorCallbackRef = Some 1, timeoutRef = Some 1,
       timers = [(1, 500)], nextHandle = 2 \<rparr> \<rparr>"
  by (simp add: awaitingReply_def requestBotMove_def hookEvent_def hook_defs)

subsection \<open>A move of the engine that the rules engine refuses\<close>

lemma makeBotMove_rejected:
  "\<not> isMoved (tryMove R (gamePosition g) (botRequest mv)) \<Longrightarrow>
     fst (makeBotMove R coin mv g) = g\<lparr> botThinking := False \<rparr>"
  by (cases "tryMove R (gamePosition g) (botRequest mv)") (simp_all add: makeBotMove_def)

text \<open>
  Claim C4, as amended. When the rules engine does not make the move that the engine
  returned, \<^verbatim>\<open>makeBotMove\<close> leaves the position and the turn as they are and only clears
  \<^verbatim>\<open>botThinking\<close>: the very update of an ordinary engine failure. The hook has done
  what it does for any \<^verbatim>\<open>bestmove\<close> message and is neither terminated nor restarted: its
  worker and its readiness are what they were.
\<close>

theorem illegal_engine_move_is_ordinary_failure:
  assumes "\<not> isMoved (tryMove R (gamePosition g) (botRequest mv))"
  shows "fst (makeBotMove R coin mv g) = fst (onBotMoveFailed g)
       \<and> gamePosition (fst (makeBotMove R coin mv g)) = gamePosition g
       \<and> isPlayerTurn (fst (makeBotMove R coin mv g)) = isPlayerTurn g
       \<and> hook (hookEvent v R coin (Message (MsgBestMove mv)) \<lparr> gameState = g, hook = h \<rparr>)
           = fst (onmessage (MsgBestMove mv) h)
       \<and> workerRef (fst (onmessage (MsgBestMove mv) h)) = workerRef h
       \<and> isReady (fst (onmessage (MsgBestMove mv) h)) = isReady h"
proof -
  have hk: "hook (hookEvent v R coin (Message (MsgBestMove mv)) \<lparr> gameState = g, hook = h \<rparr>)
           = fst (onmessage (MsgBestMove mv) h)"
    by (simp add: hookEvent_def split: prod.splits)
  have w: "workerRef (fst (onmessage (MsgBestMove mv) h)) = workerRef h
       \<and> isReady (fst (onmessage (MsgBestMove mv) h)) = isReady h"
    by (simp add: clearTimeoutRef_def clearTimeout_def Let_def split: option.splits)
  from makeBotMove_rejected[OF assms] hk w show ?thesis
    by (simp add: onBotMoveFailed_def)
qed

text \<open>The theorem where black is to reply to 1. e4 and the engine returns \<^verbatim>\<open>e2e5\<close>.\<close>

theorem illegal_engine_move_is_ordinary_failure_witness:
  "\<not> isMoved (tryMove openingRules (gamePosition (gameState awaitingReply)) (botRequest ''e2e5''))
   \<and> fst (makeBotMove openingRules True ''e2e5'' (gameState awaitingReply))
       = fst (onBotMoveFailed (gameState awaitingReply))
   \<and> gamePosition (fst (makeBotMove openingRules True ''e2e5'' (gameState awaitingReply))) = fenE4"
proof -
  have h: "\<not> isMoved (tryMove openingRules (gamePosition (gameState awaitingReply))
      (botRequest ''e2e5''))"
    by (simp add: awaitingReply_eq playedE4_eq game_defs)
  have p: "gamePosition (gameState awaitingReply) = fenE4"
    by (simp add: awaitingReply_eq playedE4_eq)
  from illegal_engine_move_is_ordinary_failure[OF h, where coin = True
      and v = Hooks_useStockfish and h = "hook awaitingReply"] h p
  show ?thesis by (simp add: onBotMoveFailed_def)
qed

text \<open>
  Claim C4 as stated fails: black is to reply to 1. e4, the request is pending, and the
  worker sends the move \<^verbatim>\<open>e2e5\<close>, which the rules engine refuses. The hook is what its
  \<^verbatim>\<open>bestmove\<close> branch leaves, still with its worker and still ready (no teardown, no
  rebuild), and the game state is the one that an engine error at the same moment
  leaves: nothing tells the two apart.
\<close>

theorem illegal_engine_move_not_a_protocol_fault:
  "hook (hookEvent Hooks_useStockfish openingRules True (Message (MsgBestMove ''e2e5''))
       awaitingReply)
     = fst (onmessage (MsgBestMove ''e2e5'') (hook awaitingReply))
   \<and> workerRef (hook (hookEvent Hooks_useStockfish openingRules True
        (Message (MsgBestMove ''e2e5'')) awaitingReply))
   \<and> isReady (hook (hookEvent Hooks_useStockfish openingRules True
        (Message (MsgBestMove ''e2e5'')) awaitingReply))
   \<and> gameState (hookEvent Hooks_useStockfish openingRules True
        (Message (MsgBestMove ''e2e5'')) awaitingReply)
     = gameState (hookEvent Hooks_useStockfish openingRules True
        (Message (MsgError ''Move timeout'')) awaitingReply)"
  by (simp add: awaitingReply_eq playedE4_eq hookEvent_def clearTimeoutRef_def clearTimeout_def
      game_defs)

subsection \<open>A move of the player\<close>

text \<open>
  Claim C5, as amended. \<^verbatim>\<open>onDrop\<close> returns false and leaves the whole state as it is
  when it is not the player's turn, when the engine is thinking, or when the rules engine
  does not make the move; and the position changes only when it is the player's turn,
  the engine is not thinking and the rules engine makes the move. The phase of the game
  is not among the conditions: \<^verbatim>\<open>onDrop\<close> does not read \<^verbatim>\<open>gameStarted\<close> or the status.
\<close>

theorem onDrop_rejects_or_moves:
  "(\<not> isPlayerTurn gs \<or> botThinking gs
      \<or> \<not> isMoved (tryMove R (gamePosition gs) (dropRequest a b pc))
     \<longrightarrow> onDrop R a b pc gs = (False, gs, []))
   \<and> (gamePosition (fst (snd (onDrop R a b pc gs))) \<noteq> gamePosition gs
     \<longrightarrow> isPlayerTurn gs \<and> \<not> botThinking gs
         \<and> isMoved (tryMove R (gamePosition gs) (dropRequest a b pc))
         \<and> fst (onDrop R a b pc gs))"
  by (cases "tryMove R (gamePosition gs) (dropRequest a b pc)") (auto simp: onDrop_def)

text \<open>The theorem after 1. e4, when it is the engine's turn: a second move of the player
  is refused and changes nothing.\<close>

theorem onDrop_rejects_or_moves_witness:
  "\<not> isPlayerTurn playedE4
   \<and> onDrop openingRules ''d2'' ''d4'' ''wP'' playedE4 = (False, playedE4, [])
   \<and> gamePosition playedE4 = fenE4"
proof -
  have h: "\<not> isPlayerTurn playedE4" by (simp add: playedE4_eq)
  from onDrop_rejects_or_moves[of playedE4 openingRules "''d2''" "''d4''" "''wP''"] h
  have "onDrop openingRules ''d2'' ''d4'' ''wP'' playedE4 = (False, playedE4, [])" by blast
  moreover have "gamePosition playedE4 = fenE4" by (simp add: playedE4_eq)
  ultimately show ?thesis using h by simp
qed

subsection \<open>A draw that leaves moves\<close>

text \<open>The second rules engine reads the positions it writes.\<close>

lemma digit_cases:
  assumes "d < 10"
  shows "d \<in> {0, 1, 2, 3, 4, 5, 6, 7, 8, 9::nat}"
  using assms by auto

lemma digit_index:
  assumes "d < 10"
  shows "length (takeWhile (\<lambda>x. x \<noteq> digitChars ! d) digitChars) = d"
  using digit_cases[OF assms] by (auto simp: digitChars_def)

lemma digit_nospace:
  assumes "d < 10" shows "digitChars ! d \<noteq> CHR '' ''"
  using digit_cases[OF assms] by (auto simp: digitChars_def)

lemma readNat_showNat: "n < 1000 \<Longrightarrow> readNat (showNat n) = n"
proof -
  assume n: "n < 1000"
  have a: "n mod 10 < 10" "n div 10 mod 10 < 10" "n div 100 mod 10 < 10" by simp_all
  show ?thesis
  proof (cases "n < 10")
    case True
    then show ?thesis by (simp add: readNat_def showNat_def digit_index)
  next
    case False
    show ?thesis
    proof (cases "n < 100")
      case True
      then have "n div 10 < 10" by simp
      with True False a show ?thesis by (simp add: readNat_def showNat_def digit_index)
    next
      case F2: False
      define q where "q = n div 10"
      define x where "x = q div 10"
      define y where "y = q mod 10"
      define z where "z = n mod 10"
      have a2: "n = 10 * q + z" by (simp add: q_def z_def)
      have a1: "q = 10 * x + y" by (simp add: x_def y_def)
      have d: "n div 100 = x" by (simp add: x_def q_def div_mult2_eq)
      from n have m2: "n div 100 mod 10 = n div 100" by simp
      have r: "readNat (showNat n) = 100 * (n div 100) + 10 * (n div 10 mod 10) + n mod 10"
        using F2 False a by (simp add: readNat_def showNat_def digit_index m2)
      then have "readNat (showNat n) = 100 * x + 10 * y + z"
        by (simp only: d q_def[symmetric] y_def[symmetric] z_def[symmetric])
      also have "\<dots> = n" unfolding a2 a1 by simp
      finally show ?thesis .
    qed
  qed
qed

lemma showNat_nospace: "CHR '' '' \<notin> set (showNat n)"
proof -
  have ns: "CHR '' '' \<noteq> digitChars ! d" if "d < 10" for d
    using digit_nospace[OF that] by simp
  have a: "CHR '' '' \<noteq> digitChars ! (n mod 10)" "CHR '' '' \<noteq> digitChars ! (n div 10 mod 10)"
    "CHR '' '' \<noteq> digitChars ! (n div 100 mod 10)"
    by (rule ns, simp)+
  show ?thesis
  proof (cases "n < 10")
    case True
    with ns[OF True] show ?thesis by (simp add: showNat_def)
  next
    case False
    show ?thesis
    proof (cases "n < 100")
      case True
      then have "n div 10 < 10" by simp
      from ns[OF this] a True False show ?thesis by (simp add: showNat_def)
    next
      case F2: False
      with a False show ?thesis by (simp add: showNat_def)
    qed
  qed
qed

lemma fields_word:
  "CHR '' '' \<notin> set xs \<Longrightarrow> fields acc (xs @ CHR '' '' # rest) = (rev acc @ xs) # fields [] rest"
  by (induction xs arbitrary: acc) auto

lemma fields_last: "CHR '' '' \<notin> set xs \<Longrightarrow> fields acc xs = [rev acc @ xs]"
  by (induction xs arbitrary: acc) auto

lemma boardOf_nospace: "CHR '' '' \<notin> set (boardOf wo bo)"
  by (simp add: boardOf_def)

lemma boardOf_eq: "(boardOf a b = boardOf c d) = (a = c \<and> b = d)"
  by (cases a; cases b; cases c; cases d) (simp_all add: boardOf_def)

lemma fields_tail:
  "fields [] (CHR ''K'' # CHR ''Q'' # CHR ''k'' # CHR ''q'' # CHR '' '' # CHR ''-'' # CHR '' '' #
      showNat h @ CHR '' '' # showNat f) = [''KQkq'', ''-'', showNat h, showNat f]"
proof -
  have t: "fields [] (showNat h @ CHR '' '' # showNat f) = [showNat h, showNat f]"
    by (simp add: fields_word[OF showNat_nospace] fields_last[OF showNat_nospace])
  show ?thesis by (simp add: t)
qed

lemma fields_shuffleFen:
  "fields [] (shuffleFen wo bo white h f)
     = [boardOf wo bo, if white then ''w'' else ''b'', ''KQkq'', ''-'', showNat h, showNat f]"
proof (cases white)
  case True
  have e: "shuffleFen wo bo white h f
      = boardOf wo bo @ CHR '' '' # (CHR ''w'' # CHR '' '' # CHR ''K'' # CHR ''Q'' # CHR ''k'' #
          CHR ''q'' # CHR '' '' # CHR ''-'' # CHR '' '' # showNat h @ CHR '' '' # showNat f)"
    using True by (simp add: shuffleFen_def)
  have "fields [] (shuffleFen wo bo white h f)
      = boardOf wo bo # fields [] (CHR ''w'' # CHR '' '' # CHR ''K'' # CHR ''Q'' # CHR ''k'' #
          CHR ''q'' # CHR '' '' # CHR ''-'' # CHR '' '' # showNat h @ CHR '' '' # showNat f)"
    unfolding e using fields_word[OF boardOf_nospace, where acc = "[]"] by simp
  also have "\<dots> = boardOf wo bo # ''w'' # [''KQkq'', ''-'', showNat h, showNat f]"
    using fields_tail[of h f] by simp
  finally show ?thesis using True by simp
next
  case False
  have e: "shuffleFen wo bo white h f
      = boardOf wo bo @ CHR '' '' # (CHR ''b'' # CHR '' '' # CHR ''K'' # CHR ''Q'' # CHR ''k'' #
          CHR ''q'' # CHR '' '' # CHR ''-'' # CHR '' '' # showNat h @ CHR '' '' # showNat f)"
    using False by (simp add: shuffleFen_def)
  have "fields [] (shuffleFen wo bo white h f)
      = boardOf wo bo # fields [] (CHR ''b'' # CHR '' '' # CHR ''K'' # CHR ''Q'' # CHR ''k'' #
          CHR ''q'' # CHR '' '' # CHR ''-'' # CHR '' '' # showNat h @ CHR '' '' # showNat f)"
    unfolding e using fields_word[OF boardOf_nospace, where acc = "[]"] by simp
  also have "\<dots> = boardOf wo bo # ''b'' # [''KQkq'', ''-'', showNat h, showNat f]"
    using fields_tail[of h f] by simp
  finally show ?thesis using False by simp
qed

lemma halfMoves_shuffleFen: "h < 1000 \<Longrightarrow> halfMoves (shuffleFen wo bo white h f) = h"
  by (simp add: halfMoves_def fields_shuffleFen readNat_showNat)

lemma sideToMove_shuffleFen:
  "sideToMove (shuffleFen wo bo white h f) = (if white then CHR ''w'' else CHR ''b'')"
  by (simp add: sideToMove_def fields_shuffleFen)

lemma knightMove_white:
  assumes "h < 1000" "f < 1000"
  shows "knightMove (shuffleFen wo bo True h f)
           \<lparr> from_sq = (if wo then ''f3'' else ''g1''), to_sq = (if wo then ''g1'' else ''f3''),
             promotion = None \<rparr>
         = Moved \<lparr> mv_san = (if wo then ''Ng1'' else ''Nf3''),
                   mv_from = (if wo then ''f3'' else ''g1''),
                   mv_to = (if wo then ''g1'' else ''f3'') \<rparr>
             (shuffleFen (\<not> wo) bo False (h + 1) f)"
  using assms
  by (cases wo; cases bo)
     (simp_all add: knightMove_def fields_shuffleFen readNat_showNat boardOf_eq Let_def)

lemma knightMove_black:
  assumes "h < 1000" "f < 1000"
  shows "knightMove (shuffleFen wo bo False h f)
           \<lparr> from_sq = (if bo then ''f6'' else ''g8''), to_sq = (if bo then ''g8'' else ''f6''),
             promotion = None \<rparr>
         = Moved \<lparr> mv_san = (if bo then ''Ng8'' else ''Nf6''),
                   mv_from = (if bo then ''f6'' else ''g8''),
                   mv_to = (if bo then ''g8'' else ''f6'') \<rparr>
             (shuffleFen wo (\<not> bo) True (h + 1) (f + 1))"
  using assms
  by (cases wo; cases bo)
     (simp_all add: knightMove_def fields_shuffleFen readNat_showNat boardOf_eq Let_def)

lemma fenStart_shuffleFen: "fenStart = shuffleFen False False True 0 1"
  by (simp add: fenStart_def shuffleFen_def boardOf_def showNat_def digitChars_def)


lemmas knight_moves =
  knightMove_white[where wo = False, simplified] knightMove_white[where wo = True, simplified]
  knightMove_black[where bo = False, simplified] knightMove_black[where bo = True, simplified]

lemmas round_defs = shuffleRound_def halfRound_def drops_def settle_def engineSends_def
  requestBotMove_def hookEvent_def requestMove_def clearTimeoutRef_def clearTimeout_def
  onDrop_def dropRequest_def makeBotMove_def botRequest_def onBotMoveFailed_def statusAfter_def
  showBotPersonality_def hideBotMessage_def shuffleRules_def

lemma history_round: "concat (replicate k r) @ r = r @ concat (replicate k r)"
  by (induction k) auto

text \<open>A round takes the state after \<open>k\<close> rounds to the state after \<open>k + 1\<close>, so the
  game of twenty-five rounds ends in the state written out for 25.\<close>

lemma halfRound_out:
  assumes "k < 25"
  shows "halfRound ''g1'' ''f3'' ''g8f6'' (shuffled k) = midRound k"
  using assms
  by (simp add: shuffled_def midRound_def round_defs knight_moves halfMoves_shuffleFen
        sideToMove_shuffleFen)

lemma halfRound_back:
  assumes "k < 25"
  shows "halfRound ''f3'' ''g1'' ''f6g8'' (midRound k) = shuffled (Suc k)"
proof -
  have four: "Suc (Suc (Suc (Suc (4 * k)))) = 4 + 4 * k" by simp
  show ?thesis
    using assms
    by (simp add: shuffled_def midRound_def round_defs knight_moves halfMoves_shuffleFen
          sideToMove_shuffleFen history_round four)
qed

lemma shuffleRound_shuffled: "k < 25 \<Longrightarrow> shuffleRound (shuffled k) = shuffled (Suc k)"
  using halfRound_out[of k] halfRound_back[of k]
  by (simp add: shuffleRound_def)

lemma shuffleStart_shuffled: "shuffleStart = shuffled 0"
  by (simp add: shuffleStart_def starts_def settle_def startGame_def greeting_def
        setPlayerName_def setPlayerGender_def initialState_def asciiWhiteSpace_def
        wideWhiteSpace_def showBotPersonality_def hideBotMessage_def shuffleRules_def
        shuffled_def fenStart_shuffleFen ready_def mounted_def)

lemma rounds_shuffled: "k \<le> 25 \<Longrightarrow> (shuffleRound ^^ k) shuffleStart = shuffled k"
proof (induction k)
  case 0
  show ?case by (simp add: shuffleStart_shuffled)
next
  case (Suc k)
  then have "(shuffleRound ^^ k) shuffleStart = shuffled k" "k < 25" by simp_all
  then show ?case by (simp add: shuffleRound_shuffled)
qed

lemma fiftyMoves_eq: "fiftyMoves = shuffled 25"
  by (simp add: fiftyMoves_def rounds_shuffled)

text \<open>
  Claim C5 as stated fails where the phase is not \<open>InProgress\<close>. In the game of
  twenty-five rounds of knight moves the engine's fiftieth move brings the half-move
  clock to 100: the rules engine reports a draw, the status is \<^verbatim>\<open>Draw!\<close>, the game is
  over, and the turn is the player's with the board still shown. \<^verbatim>\<open>onDrop\<close> makes the
  player's next knight move all the same.
\<close>

theorem onDrop_moves_after_a_draw:
  "gameStarted (gameState fiftyMoves)
   \<and> gameStatus (gameState fiftyMoves) = ''Draw!''
   \<and> phase shuffleRules (gameState fiftyMoves) = Ended
   \<and> gamePosition (gameState fiftyMoves)
       = ''rnbqkbnr/pppppppp/8/8/8/8/PPPPPPPP/RNBQKBNR w KQkq - 100 51''
   \<and> fst (onDrop shuffleRules ''g1'' ''f3'' ''wN'' (gameState fiftyMoves))
   \<and> gamePosition (fst (snd (onDrop shuffleRules ''g1'' ''f3'' ''wN'' (gameState fiftyMoves))))
       = ''rnbqkbnr/pppppppp/8/8/8/5N2/PPPPPPPP/RNBQKB1R b KQkq - 101 51''"
proof -
  have p: "shuffleFen False False True 100 51
      = ''rnbqkbnr/pppppppp/8/8/8/8/PPPPPPPP/RNBQKBNR w KQkq - 100 51''"
    by (simp add: shuffleFen_def boardOf_def showNat_def digitChars_def)
  have q: "shuffleFen True False False 101 51
      = ''rnbqkbnr/pppppppp/8/8/8/5N2/PPPPPPPP/RNBQKB1R b KQkq - 101 51''"
    by (simp add: shuffleFen_def boardOf_def showNat_def digitChars_def)
  have g: "gameState fiftyMoves = gameState (shuffled 25)" by (simp add: fiftyMoves_eq)
  have d: "onDrop shuffleRules ''g1'' ''f3'' ''wN'' (gameState (shuffled 25))
      = (True,
         (gameState (shuffled 25))\<lparr> game := shuffleFen True False False 101 51,
            gamePosition := shuffleFen True False False 101 51,
            moveHistory := moveHistory (gameState (shuffled 25)) @ [''Nf3''],
            gameStatus := ''Draw!'', isPlayerTurn := False,
            lastMove := Some (''g1'', ''f3''), selectedSquares := [],
            moveCount := 101 \<rparr>,
         [PlayMoveSound 0])"
    by (simp add: shuffled_def onDrop_def dropRequest_def statusAfter_def shuffleRules_def
          knight_moves halfMoves_shuffleFen)
  have 1: "gameStarted (gameState (shuffled 25))"
    "gameStatus (gameState (shuffled 25)) = ''Draw!''"
    "gamePosition (gameState (shuffled 25)) = shuffleFen False False True 100 51"
    by (simp_all add: shuffled_def)
  have 2: "phase shuffleRules (gameState (shuffled 25)) = Ended"
    by (simp add: shuffled_def phase_def shuffleRules_def halfMoves_shuffleFen)
  from 1 2 show ?thesis unfolding g d by (simp add: p q)
qed


subsection \<open>A failure of the engine\<close>

lemma step_failure:
  assumes "isFailure e" and "step v e h = (h', acts)"
  shows "(acts = [] \<or> (\<exists>cb. acts = [CallOnError cb]))
       \<and> workerRef h' = workerRef h \<and> isReady h' = isReady h"
  using assms
  by (induction e rule: isFailure.induct)
     (auto simp: onerror_def fireTimer_def timeoutCallback_def clearTimeoutRef_def
        clearTimeout_def Let_def split: option.splits if_splits)

lemma hookEvent_failure:
  assumes "isFailure e"
  shows "(gameState (hookEvent v R coin e sys) = gameState sys
          \<or> gameState (hookEvent v R coin e sys) = (gameState sys)\<lparr> botThinking := False \<rparr>)
       \<and> workerRef (hook (hookEvent v R coin e sys)) = workerRef (hook sys)
       \<and> isReady (hook (hookEvent v R coin e sys)) = isReady (hook sys)"
proof -
  obtain h' acts where st: "step v e (hook sys) = (h', acts)" by (cases "step v e (hook sys)")
  from step_failure[OF assms st] st show ?thesis
    by (auto simp: hookEvent_def onBotMoveFailed_def)
qed

text \<open>A failure event of the hook, whether it calls the failure closure or not, leaves
  the position, the moves made and the turn as they are.\<close>

lemma failure_event_keeps_position_and_turn:
  assumes "isFailure e"
  shows "gamePosition (gameState (hookEvent v R coin e sys)) = gamePosition (gameState sys)
       \<and> moveHistory (gameState (hookEvent v R coin e sys)) = moveHistory (gameState sys)
       \<and> isPlayerTurn (gameState (hookEvent v R coin e sys)) = isPlayerTurn (gameState sys)"
  using hookEvent_failure[OF assms, of v R coin sys] by auto

text \<open>
  Claim C6 (after \<^verbatim>\<open>onEngineFailure\<close> the position is unchanged and the turn does not
  advance: the game remains paused on the engine's turn until a retry) does not hold of
  the code when the failure is an error of the unit. The reply to 1. e4 is awaited; the
  worker posts \<^verbatim>\<open>Move timeout\<close>, which calls the failure closure, and the game is back
  in the state after 1. e4 with the engine to move. The \<^verbatim>\<open>error\<close> branch has left
  \<^verbatim>\<open>pendingCallbackRef\<close> set, so the \<^verbatim>\<open>bestmove\<close> that follows is made: the position
  advances and the turn passes to the player, with no retry.
\<close>

theorem engine_error_then_move_ends_the_pause:
  "snd (onmessage (MsgError ''Move timeout'') (hook awaitingReply)) = [CallOnError 1]
   \<and> gameState (hookEvent Hooks_useStockfish openingRules True
        (Message (MsgError ''Move timeout'')) awaitingReply) = playedE4
   \<and> gamePosition (gameState (hookEvent Hooks_useStockfish openingRules True
        (Message (MsgBestMove ''e7e5''))
        (hookEvent Hooks_useStockfish openingRules True
           (Message (MsgError ''Move timeout'')) awaitingReply))) = fenE4E5
   \<and> isPlayerTurn (gameState (hookEvent Hooks_useStockfish openingRules True
        (Message (MsgBestMove ''e7e5''))
        (hookEvent Hooks_useStockfish openingRules True
           (Message (MsgError ''Move timeout'')) awaitingReply)))"
  by (simp add: awaitingReply_eq playedE4_eq hookEvent_def clearTimeoutRef_def clearTimeout_def
      game_defs)

subsection \<open>Whose turn it is\<close>




subsection \<open>Reset\<close>

text \<open>
  Claim C8, as amended. \<^verbatim>\<open>resetGame\<close> yields the initial state in every field but
  three: \<^verbatim>\<open>isFullscreen\<close>, \<^verbatim>\<open>soundEnabled\<close> and \<^verbatim>\<open>speechEnabled\<close> are not among the fields
  it sets and keep the value they have.
\<close>

theorem resetGame_keeps_preferences:
  "fst (resetGame R gs)
     = (initialState R)\<lparr> isFullscreen := isFullscreen gs, soundEnabled := soundEnabled gs,
         speechEnabled := speechEnabled gs \<rparr>"
  by (simp add: resetGame_def initialState_def)

text \<open>
  Claim C8 as stated fails: the player turns the sound off and resets; the sound stays
  off, and in the state of a freshly mounted component it is on.
\<close>

theorem resetGame_after_toggleSound:
  "fst (resetGame openingRules (toggleSound (initialState openingRules)))
     \<noteq> initialState openingRules"
  by (simp add: resetGame_def initialState_def toggleSound_def)

section \<open>The two timers\<close>

text \<open>
  Claim C9, as amended. On a ready hook \<^verbatim>\<open>requestMove\<close> arms a timer of
  \<open>requestTimeout\<close> milliseconds, and on the position command a worker with Stockfish
  ready starts the search and arms, last, its backup timer of \<open>backupTimeout\<close>
  milliseconds. In \<^verbatim>\<open>useStockfish.ts\<close> the deadline of the hook (500) is above the
  backup timer of the worker (300); in \<^verbatim>\<open>part_002\<close> (5000 against 10000) and in
  \<^verbatim>\<open>part_004\<close> (200 against 300) it is below.
\<close>

theorem request_deadline_and_backup_timer:
  assumes "workerRef s" "isReady s" "stockfish w" "isEngineReady w"
  shows "timers (fst (requestMove v f onMove onError s))
           = timers s @ [(nextHandle s, requestTimeout v)]
       \<and> worker_onmessage v r (CmdPosition f) w = search v f
       \<and> last (search v f) = SetTimeout (backupTimeout v) Backup
       \<and> backupTimeout Hooks_useStockfish < requestTimeout Hooks_useStockfish
       \<and> requestTimeout Part_002 < backupTimeout Part_002
       \<and> requestTimeout Part_004 < backupTimeout Part_004"
  using assms by (cases v) (simp_all add: requestMove_def search_def)

text \<open>The theorem on the ready hook and the ready worker of \<^verbatim>\<open>useStockfish.ts\<close>.\<close>

theorem request_deadline_and_backup_timer_witness:
  "timers (fst (requestMove Hooks_useStockfish fenE4 1 (Some 1) ready)) = [(1, 500)]
   \<and> worker_onmessage Hooks_useStockfish 0 (CmdPosition fenE4) stockfishWorker
       = search Hooks_useStockfish fenE4
   \<and> last (search Hooks_useStockfish fenE4) = SetTimeout 300 Backup"
proof -
  have r: "workerRef ready" "isReady ready" "nextHandle ready = 1" "timers ready = []"
    by (simp_all add: ready_def mounted_def)
  have w: "stockfish stockfishWorker" "isEngineReady stockfishWorker"
    by (simp_all add: stockfishWorker_def)
  from request_deadline_and_backup_timer[OF r(1,2) w,
      of Hooks_useStockfish fenE4 1 "Some 1" 0] r(3,4)
  show ?thesis by simp
qed

text \<open>
  Claim C9 as stated fails in \<^verbatim>\<open>part_002\<close>: the hook arms its timer with 5000 ms and the
  worker its backup timer with 10000 ms.
\<close>

theorem part_002_deadline_below_backup_timer:
  "timers (fst (requestMove Part_002 fenE4 1 (Some 1) ready)) = [(1, 5000)]
   \<and> last (worker_onmessage Part_002 0 (CmdPosition fenE4) stockfishWorker)
       = SetTimeout 10000 Backup
   \<and> requestTimeout Part_002 < backupTimeout Part_002"
  by (simp add: hook_defs stockfishWorker_def search_def)

end
